theory Spec2Isabelle
  imports Complex_Main
begin

section \<open>Numbers and series\<close>

text \<open>
  The program computes on pandas Series of 64-bit floats. The model keeps what the
  program's control flow can observe of a float: whether it is a number, an infinity or
  NaN. A finite value is a real number (rounding, overflow and the sign of zero are not
  modelled); the non-finite values follow IEEE 754 as numpy applies it to arrays: no
  operation raises, NaN propagates, and every comparison with NaN is false.
\<close>

datatype fl = Num real | PosInf | NegInf | NaN

fun fl_neg :: "fl \<Rightarrow> fl" where
  "fl_neg (Num a) = Num (- a)"
| "fl_neg PosInf = NegInf"
| "fl_neg NegInf = PosInf"
| "fl_neg NaN = NaN"

fun fl_add :: "fl \<Rightarrow> fl \<Rightarrow> fl" where
  "fl_add (Num a) (Num b) = Num (a + b)"
| "fl_add NaN y = NaN"
| "fl_add x NaN = NaN"
| "fl_add PosInf NegInf = NaN"
| "fl_add NegInf PosInf = NaN"
| "fl_add PosInf y = PosInf"
| "fl_add NegInf y = NegInf"
| "fl_add (Num a) y = y"

definition fl_sub :: "fl \<Rightarrow> fl \<Rightarrow> fl" where
  "fl_sub x y = fl_add x (fl_neg y)"

fun fl_sgn :: "fl \<Rightarrow> int" where
  "fl_sgn (Num a) = (if a = 0 then 0 else if 0 < a then 1 else - 1)"
| "fl_sgn PosInf = 1"
| "fl_sgn NegInf = - 1"
| "fl_sgn NaN = 0"

fun fl_mul :: "fl \<Rightarrow> fl \<Rightarrow> fl" where
  "fl_mul (Num a) (Num b) = Num (a * b)"
| "fl_mul NaN y = NaN"
| "fl_mul x NaN = NaN"
| "fl_mul x y =
     (if fl_sgn x * fl_sgn y = 0 then NaN
      else if 0 < fl_sgn x * fl_sgn y then PosInf else NegInf)"

fun fl_div :: "fl \<Rightarrow> fl \<Rightarrow> fl" where
  "fl_div (Num a) (Num b) =
     (if b = 0 then (if a = 0 then NaN else if 0 < a then PosInf else NegInf)
      else Num (a / b))"
| "fl_div NaN y = NaN"
| "fl_div x NaN = NaN"
| "fl_div (Num a) y = Num 0"
| "fl_div PosInf (Num b) = (if b < 0 then NegInf else PosInf)"
| "fl_div NegInf (Num b) = (if b < 0 then PosInf else NegInf)"
| "fl_div x y = NaN"

fun fl_lt :: "fl \<Rightarrow> fl \<Rightarrow> bool" where
  "fl_lt (Num a) (Num b) = (a < b)"
| "fl_lt NaN y = False"
| "fl_lt x NaN = False"
| "fl_lt x PosInf = (x \<noteq> PosInf)"
| "fl_lt NegInf y = (y \<noteq> NegInf)"
| "fl_lt x y = False"

fun fl_le :: "fl \<Rightarrow> fl \<Rightarrow> bool" where
  "fl_le NaN y = False"
| "fl_le x NaN = False"
| "fl_le x y = (x = y \<or> fl_lt x y)"

fun fl_abs :: "fl \<Rightarrow> fl" where
  "fl_abs (Num a) = Num \<bar>a\<bar>"
| "fl_abs NaN = NaN"
| "fl_abs x = PosInf"

fun fl_sqrt :: "fl \<Rightarrow> fl" where
  "fl_sqrt (Num a) = (if a < 0 then NaN else Num (sqrt a))"
| "fl_sqrt PosInf = PosInf"
| "fl_sqrt x = NaN"

definition fl_of_bool :: "bool \<Rightarrow> fl" where
  "fl_of_bool b = Num (if b then 1 else 0)"

definition EPS :: real where
  "EPS = 1 / 100000"

text \<open>
  A Series is the list of its values along a bar axis shared by all series of a run:
  bar \<open>t\<close> of every series carries the same timestamp, \<open>idx ! t\<close> (minutes since an
  epoch, ascending). A binary operation of pandas aligns its operands on the union of
  their indexes and yields NaN where an operand has no entry.
\<close>

definition at_s :: "fl list \<Rightarrow> nat \<Rightarrow> fl" where
  "at_s xs i = (if i < length xs then xs ! i else NaN)"

definition align_s :: "(fl \<Rightarrow> fl \<Rightarrow> fl) \<Rightarrow> fl list \<Rightarrow> fl list \<Rightarrow> fl list" where
  "align_s f xs ys = map (\<lambda>i. f (at_s xs i) (at_s ys i)) [0..<max (length xs) (length ys)]"

definition cmp_s :: "(fl \<Rightarrow> fl \<Rightarrow> bool) \<Rightarrow> fl list \<Rightarrow> fl list \<Rightarrow> bool list" where
  "cmp_s f xs ys = map (\<lambda>i. f (at_s xs i) (at_s ys i)) [0..<max (length xs) (length ys)]"

definition and_s :: "bool list \<Rightarrow> bool list \<Rightarrow> bool list" where
  "and_s bs cs = map (\<lambda>(b, c). b \<and> c) (zip bs cs)"

definition scale_b :: "real \<Rightarrow> bool list \<Rightarrow> fl list" where
  "scale_b c bs = map (\<lambda>b. fl_mul (Num c) (fl_of_bool b)) bs"

definition shift_s :: "int \<Rightarrow> fl list \<Rightarrow> fl list" where
  "shift_s n xs =
     (if 0 \<le> n then take (length xs) (replicate (nat n) NaN @ xs)
      else drop (nat (- n)) xs @ replicate (min (nat (- n)) (length xs)) NaN)"

definition fillna :: "real \<Rightarrow> fl list \<Rightarrow> fl list" where
  "fillna v xs = map (\<lambda>x. if x = NaN then Num v else x) xs"

definition loc_slice :: "int list \<Rightarrow> int \<Rightarrow> int \<Rightarrow> 'a list \<Rightarrow> 'a list" where
  "loc_slice idx start end xs =
     map snd (filter (\<lambda>(t, v). start \<le> t \<and> t \<le> end) (zip idx xs))"

section \<open>ReturnModel: \<open>calc_ret\<close> and \<open>calc_trades\<close>\<close>

text \<open>
  \<open>calc_ret\<close> of \<open>forex_system.py\<close>. The open prices \<open>op\<close> are what \<open>i_open\<close> returns
  (historical data, finite); the signal is an integer series. \<open>signal.shift(1)\<close> has no
  value at the first bar, so the cost is NaN there.
\<close>

definition calc_cost :: "real \<Rightarrow> fl list \<Rightarrow> fl list" where
  "calc_cost spread signal =
     (let prev = shift_s 1 signal;
          temp1 = align_s fl_mul
                    (scale_b spread (and_s (map (\<lambda>x. fl_lt (Num 0) x) signal)
                                           (cmp_s (\<lambda>x y. fl_lt y x) signal prev)))
                    (align_s fl_sub signal prev);
          temp2 = align_s fl_mul
                    (scale_b spread (and_s (map (\<lambda>x. fl_lt x (Num 0)) signal)
                                           (cmp_s fl_lt signal prev)))
                    (align_s fl_sub prev signal)
      in align_s fl_add temp1 temp2)"

definition calc_ret :: "int list \<Rightarrow> real list \<Rightarrow> int list \<Rightarrow> real \<Rightarrow> int \<Rightarrow> int \<Rightarrow> fl list" where
  "calc_ret idx op signal spread start end =
     (let opf = map Num op;
          sig = map (\<lambda>s. Num (of_int s)) signal;
          cost = calc_cost spread sig;
          ret = align_s fl_div
                  (align_s fl_sub
                     (align_s fl_mul (align_s fl_sub (shift_s (- 1) opf) opf) sig) cost)
                  opf;
          ret = fillna 0 ret;
          ret = map (\<lambda>x. if x = PosInf \<or> x = NegInf then Num 0 else x) ret
      in loc_slice idx start end ret)"


text \<open>
  \<open>astype(int)\<close> truncates towards zero. After \<open>fillna\<close> the turnover of an integer
  signal holds integers only; the value numpy gives a non-finite entry is never used.
\<close>

fun astype_int :: "fl \<Rightarrow> int" where
  "astype_int (Num a) = (if 0 \<le> a then \<lfloor>a\<rfloor> else \<lceil>a\<rceil>)"
| "astype_int x = - (2 ^ 63)"

definition trade_series :: "fl list \<Rightarrow> int list" where
  "trade_series signal =
     (let prev = shift_s 1 signal;
          temp1 = align_s fl_mul
                    (map fl_of_bool (and_s (map (\<lambda>x. fl_lt (Num 0) x) signal)
                                           (cmp_s (\<lambda>x y. fl_lt y x) signal prev)))
                    (align_s fl_sub signal prev);
          temp2 = align_s fl_mul
                    (map fl_of_bool (and_s (map (\<lambda>x. fl_lt x (Num 0)) signal)
                                           (cmp_s fl_lt signal prev)))
                    (align_s fl_sub prev signal);
          trade = align_s fl_add temp1 temp2;
          trade = fillna 0 trade
      in map astype_int trade)"

definition calc_trades :: "int list \<Rightarrow> int list \<Rightarrow> int \<Rightarrow> int \<Rightarrow> int" where
  "calc_trades idx signal start end =
     sum_list (loc_slice idx start end (trade_series (map (\<lambda>s. Num (of_int s)) signal)))"

subsection \<open>The return and the cost of one bar, in closed form\<close>

text \<open>
  \<open>turnover p s\<close> is the amount by which a position grows in its own direction when the
  signal moves from \<open>p\<close> to \<open>s\<close>: \<open>s - p\<close> when a long position is extended, \<open>p - s\<close> when
  a short one is, and nothing when a position is reduced or closed.
\<close>

definition turnover :: "int \<Rightarrow> int \<Rightarrow> int" where
  "turnover p s =
     (if 0 < s \<and> p < s then s - p else if s < 0 \<and> s < p then p - s else 0)"

definition ret_bar :: "real list \<Rightarrow> int list \<Rightarrow> real \<Rightarrow> nat \<Rightarrow> real" where
  "ret_bar op signal c t =
     (if t = 0 \<or> length signal \<le> t \<or> length op \<le> Suc t \<or> op ! t = 0 then 0
      else ((op ! Suc t - op ! t) * of_int (signal ! t)
            - c * of_int (turnover (signal ! (t - 1)) (signal ! t))) / op ! t)"

text \<open>
  The return of a bar as the specification words it: the first bar has no earlier signal,
  so neither comparison with it holds and the cost is the "otherwise" case, zero.
\<close>

definition ret_bar_claimed :: "real list \<Rightarrow> int list \<Rightarrow> real \<Rightarrow> nat \<Rightarrow> real" where
  "ret_bar_claimed op signal c t =
     (if length signal \<le> t \<or> length op \<le> Suc t \<or> op ! t = 0 then 0
      else ((op ! Suc t - op ! t) * of_int (signal ! t)
            - (if t = 0 then 0 else c * of_int (turnover (signal ! (t - 1)) (signal ! t))))
           / op ! t)"

definition calc_ret_claimed ::
  "int list \<Rightarrow> real list \<Rightarrow> int list \<Rightarrow> real \<Rightarrow> int \<Rightarrow> int \<Rightarrow> fl list" where
  "calc_ret_claimed idx op signal c start end =
     loc_slice idx start end
       (map (\<lambda>t. Num (ret_bar_claimed op signal c t)) [0..<max (length op) (length signal)])"

text \<open>
  What a bar is charged: the cost where it is a number. The first bar's cost is NaN and
  that bar's whole return is replaced by zero, so nothing is charged there.
\<close>

definition cost_charged :: "fl \<Rightarrow> real" where
  "cost_charged x = (case x of Num a \<Rightarrow> a | _ \<Rightarrow> 0)"

section \<open>PerformanceAnalyzer\<close>

datatype error =
    ZeroDivisionError
  | IndexError
  | UnboundLocalError
  | ValueError
  | LoadError
  | Failure string

text \<open>
  Times are minutes since an epoch. \<open>years\<close> is
  \<open>(end - start).total_seconds() / 60 / 60 / 24 / 365\<close>.
\<close>

definition years_between :: "int \<Rightarrow> int \<Rightarrow> real" where
  "years_between start end = of_int ((end - start) * 60) / 60 / 60 / 24 / 365"

text \<open>
  The entries of a return series are numbers: \<open>calc_ret\<close> has replaced every other value
  by zero. The statistics below therefore take a list of reals.
\<close>

definition ret_values :: "fl list \<Rightarrow> real list" where
  "ret_values xs = map (\<lambda>x. case x of Num a \<Rightarrow> a | _ \<Rightarrow> 0) xs"

text \<open>\<open>ret.mean()\<close> and \<open>ret.std()\<close> (sample deviation, \<open>ddof = 1\<close>) of pandas.\<close>

definition mean_s :: "real list \<Rightarrow> fl" where
  "mean_s xs = (if xs = [] then NaN else Num (sum_list xs / of_nat (length xs)))"

definition std_s :: "real list \<Rightarrow> fl" where
  "std_s xs =
     (if length xs \<le> 1 then NaN
      else let m = sum_list xs / of_nat (length xs)
           in Num (sqrt (sum_list (map (\<lambda>x. (x - m) * (x - m)) xs) / of_nat (length xs - 1))))"

definition calc_apr :: "real list \<Rightarrow> int \<Rightarrow> int \<Rightarrow> fl" where
  "calc_apr ret start end =
     (let rate = prod_list (map (\<lambda>r. r + 1) ret) - 1;
          years = years_between start end
      in fl_div (Num rate) (Num years))"

text \<open>
  \<open>calc_sharpe\<close>: \<open>bars / years\<close> divides a Python int by a Python float, which raises
  when the divisor is zero; the remaining arithmetic is numpy's.
\<close>

definition calc_sharpe :: "real list \<Rightarrow> int \<Rightarrow> int \<Rightarrow> error + fl" where
  "calc_sharpe ret start end =
     (let bars = length ret;
          years = years_between start end
      in if years = 0 then Inl ZeroDivisionError
         else let num_bar_per_year = of_nat bars / years;
                  mean = mean_s ret;
                  std = std_s ret
              in if fl_lt (fl_abs std) (Num EPS) then Inr (Num 0)
                 else Inr (fl_div (fl_mul (fl_sqrt (Num num_bar_per_year)) mean) std))"

definition calc_kelly :: "real list \<Rightarrow> fl" where
  "calc_kelly ret =
     (let mean = mean_s ret;
          std = std_s ret
      in if fl_lt (fl_abs std) (Num EPS) then Num 0
         else fl_div mean (fl_mul std std))"

subsection \<open>Drawdowns\<close>

fun cumprod_from :: "real \<Rightarrow> real list \<Rightarrow> real list" where
  "cumprod_from a [] = []"
| "cumprod_from a (x # xs) = (a * x) # cumprod_from (a * x) xs"

definition cum_ret :: "real list \<Rightarrow> real list" where
  "cum_ret ret = map (\<lambda>w. w - 1) (cumprod_from 1 (map (\<lambda>r. r + 1) ret))"

text \<open>
  The compiled loops work on arrays created by \<open>np.zeros\<close>. Reading index \<open>-1\<close> wraps
  around to the last element, as array indexing does in numba's nopython mode.
\<close>

definition np_get :: "real list \<Rightarrow> int \<Rightarrow> real" where
  "np_get a i = (if i < 0 then a ! nat (int (length a) + i) else a ! nat i)"

definition dd_step :: "real list \<Rightarrow> nat \<Rightarrow> real list \<times> real list \<Rightarrow> real list \<times> real list" where
  "dd_step cum i s =
     (case s of (high_watermark, drawdown) \<Rightarrow>
        let high_watermark =
              (if i = 0 then high_watermark[0 := cum ! 0]
               else if cum ! i \<le> high_watermark ! (i - 1)
                    then high_watermark[i := high_watermark ! (i - 1)]
                    else high_watermark[i := cum ! i]);
            drawdown =
              (if \<bar>1 + cum ! i\<bar> < EPS
               then drawdown[i := np_get drawdown (int i - 1)]
               else drawdown[i := (1 + high_watermark ! i) / (1 + cum ! i) - 1])
        in (high_watermark, drawdown))"

text \<open>\<open>dd_state cum k\<close> holds the two arrays after \<open>k\<close> passes of the first loop.\<close>

definition dd_state :: "real list \<Rightarrow> nat \<Rightarrow> real list \<times> real list" where
  "dd_state cum k =
     fold (dd_step cum) [0..<k] (replicate (length cum) 0, replicate (length cum) 0)"

definition drawdown_series :: "real list \<Rightarrow> real list" where
  "drawdown_series cum = snd (dd_state cum (length cum))"

text \<open>
  The last loop of both functions keeps the largest entry in a variable that the first
  iteration assigns; over an empty array it is never assigned.
\<close>

definition max_step :: "real list \<Rightarrow> nat \<Rightarrow> real option \<Rightarrow> real option" where
  "max_step a i m =
     (if i = 0 then Some (a ! 0)
      else case m of None \<Rightarrow> None
           | Some v \<Rightarrow> if v < a ! i then Some (a ! i) else Some v)"

definition max_state :: "real list \<Rightarrow> nat \<Rightarrow> real option" where
  "max_state a k = fold (max_step a) [0..<k] None"

definition max_loop :: "real list \<Rightarrow> real option" where
  "max_loop a = max_state a (length a)"

definition calc_drawdowns :: "real list \<Rightarrow> error + real" where
  "calc_drawdowns ret =
     (case max_loop (drawdown_series (cum_ret ret)) of
        None \<Rightarrow> Inl UnboundLocalError
      | Some drawdowns \<Rightarrow> Inr drawdowns)"

definition dur_step :: "real list \<Rightarrow> nat \<Rightarrow> real list \<Rightarrow> real list" where
  "dur_step drawdown i duration =
     (if i = 0 then duration[0 := drawdown ! 0]
      else if drawdown ! i = 0 then duration[i := 0]
      else duration[i := duration ! (i - 1) + 1])"

definition dur_state :: "real list \<Rightarrow> nat \<Rightarrow> real list" where
  "dur_state drawdown k =
     fold (dur_step drawdown) [0..<k] (replicate (length drawdown) 0)"

definition duration_series :: "real list \<Rightarrow> real list" where
  "duration_series drawdown = dur_state drawdown (length drawdown)"

definition py_int :: "real \<Rightarrow> int" where
  "py_int x = (if 0 \<le> x then \<lfloor>x\<rfloor> else \<lceil>x\<rceil>)"

definition calc_durations :: "real list \<Rightarrow> int \<Rightarrow> error + int" where
  "calc_durations ret timeframe =
     (case max_loop (duration_series (drawdown_series (cum_ret ret))) of
        None \<Rightarrow> Inl UnboundLocalError
      | Some durations \<Rightarrow>
          if timeframe = 0 then Inl ZeroDivisionError
          else Inr (py_int (durations / (1440 / of_int timeframe))))"

text \<open>
  The run counter as the specification words it: it grows while the drawdown is positive
  and falls back to zero when the drawdown is zero; the result is the longest run.
\<close>

fun run_counter :: "nat \<Rightarrow> real list \<Rightarrow> nat list" where
  "run_counter n [] = []"
| "run_counter n (d # ds) =
     (if 0 < d then Suc n # run_counter (Suc n) ds else 0 # run_counter 0 ds)"

definition longest_run :: "real list \<Rightarrow> nat" where
  "longest_run ds = fold max (run_counter 0 ds) 0"

section \<open>Optimizer and BacktestRunner\<close>

text \<open>
  \<open>calc_performance\<close>, the function nested in \<open>backtest\<close> (and again in
  \<open>walk_forward_test\<close>). The signal function is the caller's; here it is a function of the
  parameter point. With \<open>optimization = 1\<close> the result is the negated fitness, otherwise
  the tuple of metrics.
\<close>

datatype performance =
    Fitness fl
  | Metrics "real list" int fl fl fl real int

definition calc_performance ::
  "'p \<Rightarrow> ('p \<Rightarrow> int list) \<Rightarrow> int list \<Rightarrow> real list \<Rightarrow> int \<Rightarrow> int \<Rightarrow> int \<Rightarrow> real \<Rightarrow> int \<Rightarrow> real
     \<Rightarrow> error + performance" where
  "calc_performance parameter calc_signal idx op timeframe start end spread optimization min_trade =
     (let signal = calc_signal parameter;
          ret = ret_values (calc_ret idx op signal spread start end);
          trades = calc_trades idx signal start end
      in case calc_sharpe ret start end of
           Inl e \<Rightarrow> Inl e
         | Inr sharpe \<Rightarrow>
             if optimization = 1 then
               (let years = years_between start end;
                    fitness = (if fl_le (Num min_trade) (fl_div (Num (of_int trades)) (Num years))
                               then sharpe else Num 0)
                in Inr (Fitness (fl_neg fitness)))
             else
               (let apr = calc_apr ret start end;
                    kelly = calc_kelly ret
                in case calc_drawdowns ret of
                     Inl e \<Rightarrow> Inl e
                   | Inr drawdowns \<Rightarrow>
                       (case calc_durations ret timeframe of
                          Inl e \<Rightarrow> Inl e
                        | Inr durations \<Rightarrow>
                            Inr (Metrics ret trades apr sharpe kelly drawdowns durations))))"

text \<open>
  \<open>scipy.optimize.brute\<close> with \<open>finish=None\<close> is a library function, not code of this
  repository. As its documentation and source describe it: the objective is evaluated
  at every point of the grid, in the order the grid enumerates them; an exception of the
  objective propagates; the point returned is the one at \<open>numpy.argmin\<close> of the values.
  \<open>argmin\<close> scans from the left, replaces the current minimum by an entry that is not
  at least as large, and stops at the first NaN; an empty array is a \<open>ValueError\<close>.
\<close>

fun argmin_scan :: "fl list \<Rightarrow> nat \<Rightarrow> fl \<Rightarrow> nat \<Rightarrow> nat" where
  "argmin_scan [] i mp min_ind = min_ind"
| "argmin_scan (x # xs) i mp min_ind =
     (if mp = NaN then min_ind
      else if \<not> fl_le mp x then argmin_scan xs (Suc i) x i
      else argmin_scan xs (Suc i) mp min_ind)"

definition np_argmin :: "fl list \<Rightarrow> error + nat" where
  "np_argmin js = (case js of [] \<Rightarrow> Inl ValueError | x # xs \<Rightarrow> Inr (argmin_scan xs 1 x 0))"

fun eval_all :: "('p \<Rightarrow> error + fl) \<Rightarrow> 'p list \<Rightarrow> error + fl list" where
  "eval_all f [] = Inr []"
| "eval_all f (p # ps) =
     (case f p of
        Inl e \<Rightarrow> Inl e
      | Inr j \<Rightarrow> (case eval_all f ps of Inl e \<Rightarrow> Inl e | Inr js \<Rightarrow> Inr (j # js)))"

definition brute :: "('p \<Rightarrow> error + fl) \<Rightarrow> 'p list \<Rightarrow> error + 'p" where
  "brute f grid =
     (case eval_all f grid of
        Inl e \<Rightarrow> Inl e
      | Inr jout \<Rightarrow> (case np_argmin jout of Inl e \<Rightarrow> Inl e | Inr indx \<Rightarrow> Inr (grid ! indx)))"

text \<open>The objective as \<open>backtest\<close> hands it to \<open>brute\<close>, and the search itself.\<close>

definition objective ::
  "('p \<Rightarrow> int list) \<Rightarrow> int list \<Rightarrow> real list \<Rightarrow> int \<Rightarrow> int \<Rightarrow> int \<Rightarrow> real \<Rightarrow> real \<Rightarrow> 'p
     \<Rightarrow> error + fl" where
  "objective calc_signal idx op timeframe start end spread min_trade parameter =
     (case calc_performance parameter calc_signal idx op timeframe start end spread 1 min_trade of
        Inl e \<Rightarrow> Inl e
      | Inr (Fitness j) \<Rightarrow> Inr j
      | Inr (Metrics ret trades apr sharpe kelly drawdowns durations) \<Rightarrow> Inl ValueError)"

definition backtest_optimize ::
  "('p \<Rightarrow> int list) \<Rightarrow> int list \<Rightarrow> real list \<Rightarrow> int \<Rightarrow> int \<Rightarrow> int \<Rightarrow> real \<Rightarrow> real \<Rightarrow> 'p list
     \<Rightarrow> error + 'p" where
  "backtest_optimize calc_signal idx op timeframe start end spread min_trade rranges =
     brute (objective calc_signal idx op timeframe start end spread min_trade) rranges"

text \<open>
  The quantities the specification names: the Sharpe ratio of a grid point, whether the
  point meets the trade-frequency floor, and its fitness.
\<close>

definition sharpe_of ::
  "('p \<Rightarrow> int list) \<Rightarrow> int list \<Rightarrow> real list \<Rightarrow> int \<Rightarrow> int \<Rightarrow> real \<Rightarrow> 'p \<Rightarrow> error + fl" where
  "sharpe_of calc_signal idx op start end spread parameter =
     calc_sharpe (ret_values (calc_ret idx op (calc_signal parameter) spread start end)) start end"

definition meets_floor ::
  "('p \<Rightarrow> int list) \<Rightarrow> int list \<Rightarrow> int \<Rightarrow> int \<Rightarrow> real \<Rightarrow> 'p \<Rightarrow> bool" where
  "meets_floor calc_signal idx start end min_trade parameter =
     (min_trade \<le> of_int (calc_trades idx (calc_signal parameter) start end)
                    / years_between start end)"

section \<open>WalkForwardRunner\<close>














section \<open>TimeSeriesCache\<close>

text \<open>
  The cache is the directory \<open>tmp\<close> beside the program: a map from file paths to what
  \<open>joblib.dump\<close> left there. A stored artifact either unpickles to a series or is
  corrupt, in which case \<open>joblib.load\<close> raises.
\<close>

datatype artifact = Stored "fl list" | Corrupt

type_synonym store = "string \<Rightarrow> artifact option"

definition joblib_load :: "artifact \<Rightarrow> error + fl list" where
  "joblib_load a = (case a of Stored v \<Rightarrow> Inr v | Corrupt \<Rightarrow> Inl LoadError)"

fun str_nat :: "nat \<Rightarrow> string" where
  "str_nat n =
     (if n < 10 then [''0123456789'' ! n]
      else str_nat (n div 10) @ [''0123456789'' ! (n mod 10)])"

definition str_int :: "int \<Rightarrow> string" where
  "str_int i = (if i < 0 then CHR ''-'' # str_nat (nat (- i)) else str_nat (nat i))"

text \<open>
  What a \<open>ForexSystem\<close> object reads from outside: \<open>backtest\<close> says that
  \<open>self.environment is None\<close>; \<open>read_csv f k\<close> is column \<open>k\<close> of the history file \<open>f\<close>;
  \<open>get_history s k\<close> is the same column of the live candles of symbol \<open>s\<close>.
\<close>

record fs_env =
  backtest :: bool
  path :: string
  read_csv :: "string \<Rightarrow> nat \<Rightarrow> error + fl list"
  get_history :: "string \<Rightarrow> nat \<Rightarrow> error + fl list"

definition price_path :: "fs_env \<Rightarrow> string \<Rightarrow> string \<Rightarrow> int \<Rightarrow> int \<Rightarrow> string" where
  "price_path env name symbol timeframe shift =
     path env @ ''/tmp/i_'' @ name @ ''_'' @ symbol @ str_int timeframe @ ''_''
       @ str_int shift @ ''.pkl''"

text \<open>
  \<open>i_open\<close>, \<open>i_high\<close>, \<open>i_low\<close> and \<open>i_close\<close> are the same function up to the name in
  the path and the column read.
\<close>

definition i_price ::
  "string \<Rightarrow> nat \<Rightarrow> fs_env \<Rightarrow> store \<Rightarrow> string \<Rightarrow> int \<Rightarrow> int \<Rightarrow> (error + fl list) \<times> store" where
  "i_price name column env st symbol timeframe shift =
     (let file_path = price_path env name symbol timeframe shift
      in if backtest env then
           (case st file_path of
              Some a \<Rightarrow> (joblib_load a, st)
            | None \<Rightarrow>
                (case read_csv env (''~/historical_data/'' @ symbol @ str_int timeframe @ ''.csv'')
                        column of
                   Inl e \<Rightarrow> (Inl e, st)
                 | Inr temp \<Rightarrow>
                     (let v = shift_s shift temp
                      in (Inr v, st(file_path \<mapsto> Stored v)))))
         else
           (case get_history env symbol column of
              Inl e \<Rightarrow> (Inl e, st)
            | Inr temp \<Rightarrow> (Inr (shift_s shift temp), st)))"

definition i_open :: "fs_env \<Rightarrow> store \<Rightarrow> string \<Rightarrow> int \<Rightarrow> int \<Rightarrow> (error + fl list) \<times> store" where
  "i_open = i_price ''open'' 0"






section \<open>ExecutionLoop\<close>



record exec_state =
  pre_bid :: real
  pre_ask :: real
  pre_history_time :: "int option"
  ticket :: int
  pos :: int








section \<open>Series operations, entry by entry\<close>

lemma length_align_s [simp]: "length (align_s f xs ys) = max (length xs) (length ys)"
  by (simp add: align_s_def)

lemma length_cmp_s [simp]: "length (cmp_s f xs ys) = max (length xs) (length ys)"
  by (simp add: cmp_s_def)

lemma length_shift_s [simp]: "length (shift_s n xs) = length xs"
  by (auto simp: shift_s_def)

lemma length_and_s [simp]: "length (and_s bs cs) = min (length bs) (length cs)"
  by (simp add: and_s_def)

lemma length_scale_b [simp]: "length (scale_b c bs) = length bs"
  by (simp add: scale_b_def)

lemma length_fillna [simp]: "length (fillna v xs) = length xs"
  by (simp add: fillna_def)

lemma at_s_align_s:
  "at_s (align_s f xs ys) i =
     (if i < max (length xs) (length ys) then f (at_s xs i) (at_s ys i) else NaN)"
  by (simp add: at_s_def align_s_def)

lemma nth_align_s:
  "i < max (length xs) (length ys) \<Longrightarrow> align_s f xs ys ! i = f (at_s xs i) (at_s ys i)"
  by (simp add: align_s_def)

lemma nth_cmp_s:
  "i < max (length xs) (length ys) \<Longrightarrow> cmp_s f xs ys ! i = f (at_s xs i) (at_s ys i)"
  by (simp add: cmp_s_def)

lemma at_s_nth: "i < length xs \<Longrightarrow> at_s xs i = xs ! i"
  by (simp add: at_s_def)

lemma at_s_shift_prev:
  "at_s (shift_s 1 xs) i = (if i = 0 \<or> length xs \<le> i then NaN else xs ! (i - 1))"
  by (auto simp: at_s_def shift_s_def nth_append)

lemma at_s_shift_next: "at_s (shift_s (- 1) xs) i = at_s xs (Suc i)"
  by (auto simp: at_s_def shift_s_def nth_append)

lemma at_s_map_Num:
  "at_s (map (\<lambda>x. Num (f x)) xs) i = (if i < length xs then Num (f (xs ! i)) else NaN)"
  by (simp add: at_s_def)

lemma at_s_map_Num0: "at_s (map Num xs) i = (if i < length xs then Num (xs ! i) else NaN)"
  by (simp add: at_s_def)

section \<open>The cost and the return of a bar\<close>

lemma length_calc_cost [simp]: "length (calc_cost c sig) = length sig"
  by (simp add: calc_cost_def Let_def)

lemma cost_bar_fl:
  assumes "t < length sig"
  shows "calc_cost c sig ! t =
           fl_add
             (fl_mul (fl_mul (Num c)
                        (fl_of_bool (fl_lt (Num 0) (sig ! t)
                                     \<and> fl_lt (at_s (shift_s 1 sig) t) (sig ! t))))
                (fl_sub (sig ! t) (at_s (shift_s 1 sig) t)))
             (fl_mul (fl_mul (Num c)
                        (fl_of_bool (fl_lt (sig ! t) (Num 0)
                                     \<and> fl_lt (sig ! t) (at_s (shift_s 1 sig) t))))
                (fl_sub (at_s (shift_s 1 sig) t) (sig ! t)))"
  using assms
  by (simp add: calc_cost_def Let_def nth_align_s at_s_nth scale_b_def and_s_def nth_cmp_s)

lemma cost_bar:
  assumes "t < length signal"
  shows "calc_cost c (map (\<lambda>s. Num (of_int s)) signal) ! t =
           (if t = 0 then NaN
            else Num (c * of_int (turnover (signal ! (t - 1)) (signal ! t))))"
  using assms
  by (simp add: cost_bar_fl at_s_shift_prev fl_of_bool_def fl_sub_def turnover_def algebra_simps)

lemma at_s_calc_cost:
  "at_s (calc_cost c (map (\<lambda>s. Num (of_int s)) signal)) t =
     (if t = 0 \<or> length signal \<le> t then NaN
      else Num (c * of_int (turnover (signal ! (t - 1)) (signal ! t))))"
  by (simp add: at_s_def cost_bar)

lemma ret_bars:
  "map (\<lambda>x. if x = PosInf \<or> x = NegInf then Num 0 else x)
     (fillna 0
        (align_s fl_div
           (align_s fl_sub
              (align_s fl_mul (align_s fl_sub (shift_s (- 1) (map Num op)) (map Num op))
                 (map (\<lambda>s. Num (of_int s)) signal))
              (calc_cost c (map (\<lambda>s. Num (of_int s)) signal)))
           (map Num op)))
   = map (\<lambda>t. Num (ret_bar op signal c t)) [0..<max (length op) (length signal)]"
  (is "?L = ?R")
proof (rule nth_equalityI)
  show "length ?L = length ?R"
    by simp
next
  fix i
  assume "i < length ?L"
  then have "i < max (length op) (length signal)"
    by simp
  then show "?L ! i = ?R ! i"
    by (simp add: fillna_def nth_align_s at_s_align_s at_s_shift_next at_s_map_Num0
        at_s_map_Num at_s_calc_cost fl_sub_def ret_bar_def)
qed

lemma calc_ret_closed:
  "calc_ret idx op signal c start end =
     loc_slice idx start end
       (map (\<lambda>t. Num (ret_bar op signal c t)) [0..<max (length op) (length signal)])"
  unfolding calc_ret_def Let_def ret_bars ..

text \<open>
  C1, as the code has it. For every signal series, open-price series, spread and window,
  \<open>calc_ret\<close> returns, truncated to the bars whose timestamp lies in \<open>[start, end]\<close>,
  the series whose entry at bar \<open>t\<close> is
  \<open>((open (t+1) - open t) * signal t - cost t) / open t\<close>, with
  \<open>cost t = c * (signal t - signal (t-1))\<close> when a long position is extended,
  \<open>c * (signal (t-1) - signal t)\<close> when a short position is extended and zero otherwise;
  the entry is zero where that value is not finite: at the first bar, whose cost is NaN
  for want of an earlier signal, at a bar without signal or without a next open price, and
  where \<open>open t = 0\<close>.
\<close>

theorem calc_ret_formula:
  "calc_ret idx op signal c start end =
     loc_slice idx start end
       (map (\<lambda>t. Num (if t = 0 \<or> length signal \<le> t \<or> length op \<le> Suc t \<or> op ! t = 0 then 0
                      else ((op ! Suc t - op ! t) * of_int (signal ! t)
                            - c * of_int (turnover (signal ! (t - 1)) (signal ! t))) / op ! t))
          [0..<max (length op) (length signal)])"
  using calc_ret_closed [of idx op signal c start "end"] by (simp add: ret_bar_def)

text \<open>
  The claim as worded fails at the first bar. With prices 1, 2, 4, a signal that is long
  throughout and no spread, the worded formula gives the first bar the return 1; the
  program gives it 0.
\<close>

theorem calc_ret_first_bar_counterexample:
  "calc_ret [0, 1, 2] [1, 2, 4] [1, 1, 1] 0 0 2 = [Num 0, Num 1, Num 0]
   \<and> calc_ret_claimed [0, 1, 2] [1, 2, 4] [1, 1, 1] 0 0 2 = [Num 1, Num 1, Num 0]"
  by (simp add: calc_ret_closed calc_ret_claimed_def loc_slice_def ret_bar_def
      ret_bar_claimed_def turnover_def eval_nat_numeral upt_conv_Cons)

theorem calc_ret_formula_witness:
  "calc_ret [0, 10, 20, 30] [2, 4, 2, 1] [0, 1, 2, 2] (1 / 2) 10 30
     = [Num (- 5 / 8), Num (- 5 / 4), Num 0]"
  using calc_ret_formula [of "[0, 10, 20, 30]" "[2, 4, 2, 1]" "[0, 1, 2, 2]" "1 / 2" 10 30]
  by (simp add: loc_slice_def turnover_def eval_nat_numeral upt_conv_Cons)


section \<open>Turnover and total cost\<close>

lemma astype_int_of_int [simp]: "astype_int (Num (of_int k)) = k"
  by simp

lemma length_trade_series [simp]: "length (trade_series sig) = length sig"
  by (simp add: trade_series_def Let_def)

lemma trade_bar:
  assumes "t < length signal"
  shows "trade_series (map (\<lambda>s. Num (of_int s)) signal) ! t =
           (if t = 0 then 0 else turnover (signal ! (t - 1)) (signal ! t))"
proof -
  have "fillna 0 (align_s fl_add
          (align_s fl_mul
             (map fl_of_bool
                (and_s (map (\<lambda>x. fl_lt (Num 0) x) (map (\<lambda>s. Num (of_int s)) signal))
                   (cmp_s (\<lambda>x y. fl_lt y x) (map (\<lambda>s. Num (of_int s)) signal)
                      (shift_s 1 (map (\<lambda>s. Num (of_int s)) signal)))))
             (align_s fl_sub (map (\<lambda>s. Num (of_int s)) signal)
                (shift_s 1 (map (\<lambda>s. Num (of_int s)) signal))))
          (align_s fl_mul
             (map fl_of_bool
                (and_s (map (\<lambda>x. fl_lt x (Num 0)) (map (\<lambda>s. Num (of_int s)) signal))
                   (cmp_s fl_lt (map (\<lambda>s. Num (of_int s)) signal)
                      (shift_s 1 (map (\<lambda>s. Num (of_int s)) signal)))))
             (align_s fl_sub (shift_s 1 (map (\<lambda>s. Num (of_int s)) signal))
                (map (\<lambda>s. Num (of_int s)) signal)))) ! t
        = Num (of_int (if t = 0 then 0 else turnover (signal ! (t - 1)) (signal ! t)))"
    using assms
    by (simp add: fillna_def nth_align_s at_s_nth and_s_def nth_cmp_s at_s_shift_prev
        fl_of_bool_def fl_sub_def turnover_def)
  then show ?thesis
    using assms by (simp add: trade_series_def Let_def del: of_int_diff)
qed

lemma cost_charged_bar:
  assumes "t < length signal"
  shows "cost_charged (calc_cost c (map (\<lambda>s. Num (of_int s)) signal) ! t) =
           c * of_int (trade_series (map (\<lambda>s. Num (of_int s)) signal) ! t)"
  using assms by (simp add: cost_bar trade_bar cost_charged_def)

lemma loc_slice_sum:
  assumes "list_all2 (\<lambda>x y. f x = c * of_int y) xs ys"
  shows "sum_list (map f (loc_slice idx start end xs))
           = (c :: real) * of_int (sum_list (loc_slice idx start end ys))"
  using assms
proof (induction xs ys arbitrary: idx rule: list_all2_induct)
  case Nil
  then show ?case by (simp add: loc_slice_def)
next
  case (Cons x xs y ys)
  show ?case
  proof (cases idx)
    case Nil
    then show ?thesis by (simp add: loc_slice_def)
  next
    case (Cons i js)
    with Cons.IH [of js] Cons.hyps(1) show ?thesis
      by (simp add: loc_slice_def algebra_simps)
  qed
qed

lemma total_cost:
  "sum_list (map cost_charged
       (loc_slice idx start end (calc_cost c (map (\<lambda>s. Num (of_int s)) signal))))
     = c * of_int (calc_trades idx signal start end)"
  unfolding calc_trades_def
  by (rule loc_slice_sum) (simp add: list_all2_conv_all_nth cost_charged_bar)

lemma turnover_nonneg: "0 \<le> turnover p s"
  by (simp add: turnover_def)

lemma turnover_max:
  "turnover p s = (if 0 < s then max 0 (s - p) else if s < 0 then max 0 (p - s) else 0)"
  by (simp add: turnover_def)


lemma cost_never_negative:
  assumes "0 \<le> c"
  shows "\<forall>x \<in> set (calc_cost c (map (\<lambda>s. Num (of_int s)) signal)). \<not> fl_lt x (Num 0)"
proof
  fix x
  assume "x \<in> set (calc_cost c (map (\<lambda>s. Num (of_int s)) signal))"
  then obtain t where t: "t < length signal"
    and x: "x = calc_cost c (map (\<lambda>s. Num (of_int s)) signal) ! t"
    by (auto simp: in_set_conv_nth)
  have "0 \<le> c * of_int (turnover (signal ! (t - 1)) (signal ! t))"
    using assms turnover_nonneg [of "signal ! (t - 1)" "signal ! t"] by simp
  with t x show "\<not> fl_lt x (Num 0)"
    by (simp add: cost_bar)
qed

text \<open>
  C2, as the code has it. For every signal series, spread \<open>c \<ge> 0\<close> and window: at every
  bar after the first the cost term inside \<open>calc_ret\<close> is \<open>c\<close> times the turnover
  \<open>calc_trades\<close> counts for that bar, which is \<open>max 0 (signal t - signal (t-1))\<close> for a
  long signal and \<open>max 0 (signal (t-1) - signal t)\<close> for a short one; at the first bar
  the cost term is NaN while the turnover counts as zero. The cost is never negative, and
  the cost charged over the window (the numeric cost terms) sums to \<open>c\<close> times
  \<open>calc_trades\<close> of the window.
\<close>

theorem cost_is_spread_times_turnover:
  assumes "0 \<le> c"
  shows "(\<forall>t. 0 < t \<and> t < length signal \<longrightarrow>
            calc_cost c (map (\<lambda>s. Num (of_int s)) signal) ! t
              = Num (c * of_int (trade_series (map (\<lambda>s. Num (of_int s)) signal) ! t))
            \<and> trade_series (map (\<lambda>s. Num (of_int s)) signal) ! t
              = (if 0 < signal ! t then max 0 (signal ! t - signal ! (t - 1))
                 else if signal ! t < 0 then max 0 (signal ! (t - 1) - signal ! t)
                 else 0))
       \<and> (signal \<noteq> [] \<longrightarrow>
            calc_cost c (map (\<lambda>s. Num (of_int s)) signal) ! 0 = NaN
            \<and> trade_series (map (\<lambda>s. Num (of_int s)) signal) ! 0 = 0)
       \<and> (\<forall>x \<in> set (calc_cost c (map (\<lambda>s. Num (of_int s)) signal)). \<not> fl_lt x (Num 0))
       \<and> sum_list (map cost_charged
            (loc_slice idx start end (calc_cost c (map (\<lambda>s. Num (of_int s)) signal))))
           = c * of_int (calc_trades idx signal start end)"
  using cost_never_negative [OF assms, of signal] total_cost [of idx start "end" c signal]
  by (simp add: cost_bar trade_bar turnover_max)

theorem cost_is_spread_times_turnover_witness:
  "(0 :: real) \<le> 1 / 2
   \<and> calc_cost (1 / 2) (map (\<lambda>s. Num (of_int s)) [0, 1, 2, 0, - 1]) ! 2
       = Num (1 / 2 * of_int (trade_series (map (\<lambda>s. Num (of_int s)) [0, 1, 2, 0, - 1]) ! 2))
   \<and> calc_cost (1 / 2) (map (\<lambda>s. Num (of_int s)) [0, 1, 2, 0, - 1]) ! 0 = NaN
   \<and> sum_list (map cost_charged
        (loc_slice [0, 1, 2, 3, 4] 1 4
           (calc_cost (1 / 2) (map (\<lambda>s. Num (of_int s)) [0, 1, 2, 0, - 1]))))
       = 1 / 2 * of_int (calc_trades [0, 1, 2, 3, 4] [0, 1, 2, 0, - 1] 1 4)"
proof -
  have c: "(0 :: real) \<le> 1 / 2"
    by simp
  from cost_is_spread_times_turnover [OF c, of "[0, 1, 2, 0, - 1]" "[0, 1, 2, 3, 4]" 1 4]
  show ?thesis
    by simp
qed

text \<open>
  The claim as worded fails at the first bar: for the one-bar signal \<open>[1]\<close> and spread 1
  the cost term is NaN, while the spread times the turnover counted there is 0.
\<close>

theorem cost_first_bar_counterexample:
  "calc_cost 1 (map (\<lambda>s. Num (of_int s)) [1]) ! 0 = NaN
   \<and> Num (1 * of_int (trade_series (map (\<lambda>s. Num (of_int s)) [1]) ! 0)) = Num 0"
  using cost_bar [of 0 "[1]" 1] trade_bar [of 0 "[1]"] by simp


section \<open>Drawdowns\<close>

lemma dd_state_0: "dd_state cum 0 = (replicate (length cum) 0, replicate (length cum) 0)"
  by (simp add: dd_state_def)

lemma dd_state_Suc: "dd_state cum (Suc k) = dd_step cum k (dd_state cum k)"
  by (simp add: dd_state_def)

lemma max_state_Suc: "max_state a (Suc k) = max_step a k (max_state a k)"
  by (simp add: max_state_def)

lemma max_state_Max:
  "k \<le> length a \<Longrightarrow> 0 < k \<Longrightarrow> max_state a k = Some (Max (set (take k a)))"
proof (induction k)
  case 0
  then show ?case by simp
next
  case (Suc k)
  show ?case
  proof (cases "k = 0")
    case True
    with Suc.prems show ?thesis
      by (cases a) (simp_all add: max_state_Suc max_step_def)
  next
    case False
    with Suc have ih: "max_state a k = Some (Max (set (take k a)))"
      by simp
    from Suc.prems have k: "k < length a"
      by simp
    from False k have ne: "set (take k a) \<noteq> {}"
      by auto
    have "Max (set (take (Suc k) a)) = max (a ! k) (Max (set (take k a)))"
      using k ne by (simp add: take_Suc_conv_app_nth)
    with False ih show ?thesis
      by (simp add: max_state_Suc max_step_def max_def)
  qed
qed

lemma max_loop_Max: "a \<noteq> [] \<Longrightarrow> max_loop a = Some (Max (set a))"
  using max_state_Max [of "length a" a] by (simp add: max_loop_def)

lemma length_dd_state [simp]:
  "length (fst (dd_state cum k)) = length cum \<and> length (snd (dd_state cum k)) = length cum"
  by (induction k) (simp_all add: dd_state_0 dd_state_Suc dd_step_def Let_def split_beta)

lemma length_drawdown_series [simp]: "length (drawdown_series cum) = length cum"
  by (simp add: drawdown_series_def)

lemma EPS_pos: "0 < EPS"
  by (simp add: EPS_def)

lemma np_get_prev:
  assumes "k < length a"
  shows "\<exists>j < length a. np_get a (int k - 1) = a ! j"
proof (cases "k = 0")
  case True
  with assms have "np_get a (int k - 1) = a ! (length a - 1)"
    by (simp add: np_get_def nat_diff_distrib')
  with assms show ?thesis
    by (intro exI [of _ "length a - 1"]) simp
next
  case False
  then have "np_get a (int k - 1) = a ! (k - 1)"
    by (simp add: np_get_def nat_diff_distrib')
  with assms show ?thesis
    by (intro exI [of _ "k - 1"]) simp
qed

text \<open>The first entry of the drawdown array is zero, and the entries not yet written are.\<close>

lemma dd_first_zero:
  assumes "k \<le> length cum"
  shows "(0 < k \<longrightarrow> snd (dd_state cum k) ! 0 = 0)
         \<and> (\<forall>j. k \<le> j \<and> j < length cum \<longrightarrow> snd (dd_state cum k) ! j = 0)"
  using assms
proof (induction k)
  case 0
  then show ?case by (simp add: dd_state_0)
next
  case (Suc k)
  then have k: "k < length cum"
    and untouched: "\<forall>j. k \<le> j \<and> j < length cum \<longrightarrow> snd (dd_state cum k) ! j = 0"
    and first: "0 < k \<longrightarrow> snd (dd_state cum k) ! 0 = 0"
    by simp_all
  obtain hw dd where s: "dd_state cum k = (hw, dd)"
    by (cases "dd_state cum k")
  have len: "length hw = length cum" "length dd = length cum"
    using length_dd_state [of cum k] s by simp_all
  show ?case
  proof (cases "k = 0")
    case True
    have "nat (int (length cum) - 1) = length cum - 1"
      by simp
    then have last0: "np_get dd (- 1) = 0"
      using untouched s k len True by (simp add: np_get_def)
    have "\<not> \<bar>1 + cum ! 0\<bar> < EPS \<Longrightarrow> 1 + cum ! 0 \<noteq> 0"
      using EPS_pos by auto
    with True s k len last0 untouched show ?thesis
      by (auto simp: dd_state_Suc dd_step_def Let_def)
  next
    case False
    with s k len first untouched show ?thesis
      by (auto simp: dd_state_Suc dd_step_def Let_def)
  qed
qed

lemma drawdown_series_first:
  "cum \<noteq> [] \<Longrightarrow> drawdown_series cum ! 0 = 0"
  using dd_first_zero [of "length cum" cum] by (simp add: drawdown_series_def)


lemma ratio_nonneg: "0 < 1 + c \<Longrightarrow> c \<le> h \<Longrightarrow> 0 \<le> (1 + h) / (1 + c) - (1 :: real)"
  by (simp add: pos_le_divide_eq)

text \<open>
  While the wealth never falls, the high-water mark is the wealth itself and every
  drawdown is zero.
\<close>

lemma dd_sorted_zero:
  assumes "sorted cum" and "k \<le> length cum"
  shows "(\<forall>j < k. fst (dd_state cum k) ! j = cum ! j)
         \<and> (\<forall>j < length cum. snd (dd_state cum k) ! j = 0)"
  using assms(2)
proof (induction k)
  case 0
  then show ?case by (simp add: dd_state_0)
next
  case (Suc k)
  then have k: "k < length cum"
    and hwk: "\<forall>j < k. fst (dd_state cum k) ! j = cum ! j"
    and zero: "\<forall>j < length cum. snd (dd_state cum k) ! j = 0"
    by simp_all
  obtain hw dd where s: "dd_state cum k = (hw, dd)"
    by (cases "dd_state cum k")
  have len: "length hw = length cum" "length dd = length cum"
    using length_dd_state [of cum k] s by simp_all
  obtain j where j: "j < length dd" "np_get dd (int k - 1) = dd ! j"
    using np_get_prev [of k dd] k len by auto
  with zero s len have prev0: "np_get dd (int k - 1) = 0"
    by simp
  have mono: "0 < k \<Longrightarrow> cum ! (k - 1) \<le> cum ! k"
    using assms(1) k by (simp add: sorted_iff_nth_mono)
  have nz: "\<not> \<bar>1 + cum ! k\<bar> < EPS \<Longrightarrow> 1 + cum ! k \<noteq> 0"
    using EPS_pos by auto
  have prev: "0 < k \<Longrightarrow> hw ! (k - 1) = cum ! (k - 1)"
    using hwk s by simp
  show ?case
    using s k len prev0 mono nz prev hwk zero
    by (auto simp: dd_state_Suc dd_step_def Let_def nth_list_update less_Suc_eq)
qed

lemma drawdown_series_sorted:
  "sorted cum \<Longrightarrow> j < length cum \<Longrightarrow> drawdown_series cum ! j = 0"
  using dd_sorted_zero [of cum "length cum"] by (simp add: drawdown_series_def)

text \<open>
  While the wealth \<open>1 + W\<close> is not negative, the high-water mark is at least the wealth
  and no drawdown is negative.
\<close>

lemma dd_wealth_nonneg:
  assumes "\<forall>j < length cum. 0 \<le> 1 + cum ! j" and "k \<le> length cum"
  shows "(\<forall>j < k. cum ! j \<le> fst (dd_state cum k) ! j)
         \<and> (\<forall>j < length cum. 0 \<le> snd (dd_state cum k) ! j)"
  using assms(2)
proof (induction k)
  case 0
  then show ?case by (simp add: dd_state_0)
next
  case (Suc k)
  then have k: "k < length cum"
    and hwk: "\<forall>j < k. cum ! j \<le> fst (dd_state cum k) ! j"
    and nonneg: "\<forall>j < length cum. 0 \<le> snd (dd_state cum k) ! j"
    by simp_all
  obtain hw dd where s: "dd_state cum k = (hw, dd)"
    by (cases "dd_state cum k")
  have len: "length hw = length cum" "length dd = length cum"
    using length_dd_state [of cum k] s by simp_all
  obtain j where j: "j < length dd" "np_get dd (int k - 1) = dd ! j"
    using np_get_prev [of k dd] k len by auto
  with nonneg s len have prev0: "0 \<le> np_get dd (int k - 1)"
    by simp
  have pos: "\<not> \<bar>1 + cum ! k\<bar> < EPS \<Longrightarrow> 0 < 1 + cum ! k"
    using EPS_pos assms(1) k by (auto simp: abs_if split: if_splits)
  have r1: "\<not> \<bar>1 + cum ! k\<bar> < EPS \<Longrightarrow> 0 \<le> (1 + cum ! k) / (1 + cum ! k) - 1"
    using pos by (simp add: ratio_nonneg)
  have r2: "\<not> \<bar>1 + cum ! k\<bar> < EPS \<Longrightarrow> cum ! k \<le> h \<Longrightarrow> 0 \<le> (1 + h) / (1 + cum ! k) - 1" for h
    using pos by (simp add: ratio_nonneg)
  show ?case
    using s k len prev0 r1 r2 hwk nonneg
    by (auto simp: dd_state_Suc dd_step_def Let_def nth_list_update less_Suc_eq)
qed

lemma drawdown_series_nonneg:
  "\<forall>j < length cum. 0 \<le> 1 + cum ! j \<Longrightarrow> j < length cum \<Longrightarrow> 0 \<le> drawdown_series cum ! j"
  using dd_wealth_nonneg [of cum "length cum"] by (simp add: drawdown_series_def)

lemma length_cumprod_from [simp]: "length (cumprod_from a xs) = length xs"
  by (induction xs arbitrary: a) simp_all

lemma length_cum_ret [simp]: "length (cum_ret ret) = length ret"
  by (simp add: cum_ret_def)

lemma calc_drawdowns_Max:
  "ret \<noteq> [] \<Longrightarrow> calc_drawdowns ret = Inr (Max (set (drawdown_series (cum_ret ret))))"
proof -
  assume "ret \<noteq> []"
  then have "drawdown_series (cum_ret ret) \<noteq> []"
    by (metis length_0_conv length_cum_ret length_drawdown_series)
  then show ?thesis
    by (simp add: calc_drawdowns_def max_loop_Max)
qed

text \<open>
  C3. For every non-empty return series the maximal drawdown is computed and is not
  negative; and whenever the cumulative wealth \<open>W t = (\<Prod>i\<le>t. 1 + ret i) - 1\<close> never
  decreases over the series, it is exactly zero.
\<close>

theorem calc_drawdowns_nonneg:
  assumes "ret \<noteq> []"
  shows "\<exists>d. calc_drawdowns ret = Inr d \<and> 0 \<le> d \<and> (sorted (cum_ret ret) \<longrightarrow> d = 0)"
proof -
  let ?dd = "drawdown_series (cum_ret ret)"
  from assms have ne: "?dd \<noteq> []"
    by (metis length_0_conv length_cum_ret length_drawdown_series)
  from assms have "cum_ret ret \<noteq> []"
    by (metis length_0_conv length_cum_ret)
  then have first: "?dd ! 0 = 0"
    by (rule drawdown_series_first)
  from ne have "?dd ! 0 \<in> set ?dd"
    by (metis nth_mem length_greater_0_conv)
  then have "?dd ! 0 \<le> Max (set ?dd)"
    by (intro Max_ge) simp_all
  with first have nonneg: "0 \<le> Max (set ?dd)"
    by simp
  have flat: "Max (set ?dd) = 0" if "sorted (cum_ret ret)"
  proof -
    have "\<forall>x \<in> set ?dd. x = 0"
      using that drawdown_series_sorted [of "cum_ret ret"] by (auto simp: in_set_conv_nth)
    with ne have "set ?dd = {0}"
      by (cases ?dd) auto
    then show ?thesis
      by simp
  qed
  from assms nonneg flat show ?thesis
    by (simp add: calc_drawdowns_Max)
qed


theorem calc_drawdowns_nonneg_witness:
  "[1 / 10, - 1 / 2, 1 / 10, 2] \<noteq> ([] :: real list)
   \<and> calc_drawdowns [1 / 10, - 1 / 2, 1 / 10, 2] = Inr 1
   \<and> sorted (cum_ret [1, 0, 1 / 2]) \<and> calc_drawdowns [1, 0, 1 / 2] = Inr 0"
proof -
  have a: "[1 / 10, - 1 / 2, 1 / 10, 2] \<noteq> ([] :: real list)"
    by simp
  have b: "[1, 0, 1 / 2] \<noteq> ([] :: real list)"
    by simp
  have s: "sorted (cum_ret [1, 0, 1 / 2])"
    by (simp add: cum_ret_def)
  have m: "calc_drawdowns [1 / 10, - 1 / 2, 1 / 10, 2] = Inr 1"
    by (simp add: calc_drawdowns_def max_loop_def max_state_def max_step_def
        drawdown_series_def dd_state_def dd_step_def cum_ret_def np_get_def EPS_def
        eval_nat_numeral upt_conv_Cons Let_def)
  from calc_drawdowns_nonneg [OF a] calc_drawdowns_nonneg [OF b] s m show ?thesis
    by auto
qed


section \<open>Drawdown duration\<close>

lemma dur_state_0: "dur_state dd 0 = replicate (length dd) 0"
  by (simp add: dur_state_def)

lemma dur_state_Suc: "dur_state dd (Suc k) = dur_step dd k (dur_state dd k)"
  by (simp add: dur_state_def)

lemma length_dur_state [simp]: "length (dur_state dd k) = length dd"
  by (induction k) (simp_all add: dur_state_0 dur_state_Suc dur_step_def)

lemma length_dur_step [simp]: "length (dur_step dd k d) = length d"
  by (simp add: dur_step_def)

lemma length_run_counter [simp]: "length (run_counter c ds) = length ds"
  by (induction ds arbitrary: c) simp_all

lemma run_counter_nth:
  "i < length ds \<Longrightarrow>
     run_counter c ds ! i =
       (if 0 < ds ! i then Suc (if i = 0 then c else run_counter c ds ! (i - 1)) else 0)"
proof (induction ds arbitrary: c i)
  case Nil
  then show ?case by simp
next
  case (Cons d ds)
  show ?case
  proof (cases i)
    case 0
    then show ?thesis by simp
  next
    case (Suc j)
    with Cons.prems have j: "j < length ds"
      by simp
    show ?thesis
    proof (cases j)
      case 0
      with Suc j show ?thesis
        by (cases ds) auto
    next
      case (Suc j')
      with \<open>i = Suc j\<close> j Cons.IH [of j] show ?thesis
        by simp
    qed
  qed
qed

text \<open>
  Where no drawdown is negative and the first one is zero, the duration array of the
  program is the run counter of the specification.
\<close>

lemma dur_state_run_counter:
  assumes "\<forall>j < length dd. 0 \<le> dd ! j" and "dd \<noteq> [] \<longrightarrow> dd ! 0 = 0" and "k \<le> length dd"
  shows "take k (dur_state dd k) = map real (take k (run_counter 0 dd))"
  using assms(3)
proof (induction k)
  case 0
  then show ?case by simp
next
  case (Suc k)
  then have k: "k < length dd"
    and ih: "take k (dur_state dd k) = map real (take k (run_counter 0 dd))"
    by simp_all
  have prev: "dur_state dd k ! (k - 1) = real (run_counter 0 dd ! (k - 1))" if "0 < k"
  proof -
    from that have "dur_state dd k ! (k - 1) = take k (dur_state dd k) ! (k - 1)"
      by simp
    also have "\<dots> = real (run_counter 0 dd ! (k - 1))"
      using that k by (simp add: ih)
    finally show ?thesis .
  qed
  have new: "dur_step dd k (dur_state dd k) ! k = real (run_counter 0 dd ! k)"
  proof (cases "k = 0")
    case True
    with k assms(2) show ?thesis
      by (auto simp: dur_step_def run_counter_nth)
  next
    case False
    from assms(1) k have "0 \<le> dd ! k"
      by simp
    with False k prev show ?thesis
      by (auto simp: dur_step_def run_counter_nth)
  qed
  have old: "take k (dur_step dd k (dur_state dd k)) = take k (dur_state dd k)"
    by (simp add: dur_step_def)
  have "take (Suc k) (dur_step dd k (dur_state dd k))
          = take k (dur_step dd k (dur_state dd k)) @ [dur_step dd k (dur_state dd k) ! k]"
    using k by (simp add: take_Suc_conv_app_nth)
  with old ih new k show ?case
    by (simp add: dur_state_Suc take_Suc_conv_app_nth)
qed

lemma duration_series_run_counter:
  assumes "\<forall>j < length dd. 0 \<le> dd ! j" and "dd \<noteq> [] \<longrightarrow> dd ! 0 = 0"
  shows "duration_series dd = map real (run_counter 0 dd)"
  using dur_state_run_counter [OF assms, of "length dd"] by (simp add: duration_series_def)

lemma fold_max_Max: "xs \<noteq> [] \<Longrightarrow> fold max xs (0 :: nat) = Max (set xs)"
proof -
  assume ne: "xs \<noteq> []"
  have "fold max xs 0 = Max (set (0 # xs))"
    by (simp only: Max.set_eq_fold)
  also have "\<dots> = max 0 (Max (set xs))"
    using ne by simp
  finally show ?thesis
    by simp
qed

lemma Max_real: "xs \<noteq> [] \<Longrightarrow> Max (real ` set xs) = real (Max (set xs))"
  using mono_Max_commute [of real "set xs"] by (simp add: mono_def)

lemma max_loop_run_counter:
  assumes "dd \<noteq> []"
  shows "max_loop (map real (run_counter 0 dd)) = Some (real (longest_run dd))"
proof -
  from assms have ne: "run_counter 0 dd \<noteq> []"
    by (metis length_0_conv length_run_counter)
  then show ?thesis
    by (simp add: max_loop_Max Max_real fold_max_Max longest_run_def)
qed

lemma run_counter_zero:
  "\<forall>d \<in> set ds. d = 0 \<Longrightarrow> run_counter 0 ds = replicate (length ds) 0"
  by (induction ds) simp_all

lemma fold_max_zeros: "fold max (replicate n (0 :: nat)) 0 = 0"
  by (induction n) simp_all

lemma longest_run_zero: "\<forall>d \<in> set ds. d = 0 \<Longrightarrow> longest_run ds = 0"
  unfolding longest_run_def by (simp only: run_counter_zero fold_max_zeros)


lemma cum_ret_wealth:
  "\<forall>w \<in> set (cum_ret ret). 0 \<le> 1 + w \<Longrightarrow> \<forall>j < length (cum_ret ret). 0 \<le> 1 + cum_ret ret ! j"
  by simp

text \<open>
  C4, as the code has it. For every non-empty return series whose wealth \<open>1 + W t\<close> is
  never negative and for every timeframe other than zero, the duration is the longest
  run of the counter that grows while the drawdown is positive and falls back to zero
  where it is zero, divided by \<open>1440 / timeframe\<close> and truncated to an integer; and it
  is zero whenever the maximal drawdown is zero.
\<close>

theorem calc_durations_run:
  assumes "ret \<noteq> []" and "timeframe \<noteq> 0" and "\<forall>w \<in> set (cum_ret ret). 0 \<le> 1 + w"
  shows "calc_durations ret timeframe =
           Inr (py_int (real (longest_run (drawdown_series (cum_ret ret)))
                        / (1440 / of_int timeframe)))
         \<and> (calc_drawdowns ret = Inr 0 \<longrightarrow> calc_durations ret timeframe = Inr 0)"
proof -
  let ?dd = "drawdown_series (cum_ret ret)"
  from assms(1) have cne: "cum_ret ret \<noteq> []"
    by (metis length_0_conv length_cum_ret)
  then have ne: "?dd \<noteq> []"
    by (metis length_0_conv length_drawdown_series)
  have nonneg: "\<forall>j < length ?dd. 0 \<le> ?dd ! j"
    using drawdown_series_nonneg [of "cum_ret ret"] assms(3) by simp
  have first: "?dd \<noteq> [] \<longrightarrow> ?dd ! 0 = 0"
    using drawdown_series_first [OF cne] by simp
  have dur: "duration_series ?dd = map real (run_counter 0 ?dd)"
    by (rule duration_series_run_counter [OF nonneg first])
  have run: "calc_durations ret timeframe =
               Inr (py_int (real (longest_run ?dd) / (1440 / of_int timeframe)))"
    using assms(2) by (simp add: calc_durations_def dur max_loop_run_counter [OF ne])
  have flat: "calc_durations ret timeframe = Inr 0" if "calc_drawdowns ret = Inr 0"
  proof -
    from that assms(1) have top: "Max (set ?dd) = 0"
      by (simp add: calc_drawdowns_Max)
    have "\<forall>d \<in> set ?dd. d = 0"
    proof
      fix d
      assume d: "d \<in> set ?dd"
      then have "d \<le> Max (set ?dd)"
        by (intro Max_ge) simp_all
      moreover from d nonneg have "0 \<le> d"
        by (auto simp: in_set_conv_nth)
      ultimately show "d = 0"
        using top by simp
    qed
    then have "longest_run ?dd = 0"
      by (rule longest_run_zero)
    with run show ?thesis
      by (simp add: py_int_def)
  qed
  from run flat show ?thesis
    by simp
qed

theorem calc_durations_run_witness:
  "[1 / 10, - 1 / 2, 1 / 10, 2] \<noteq> ([] :: real list) \<and> (720 :: int) \<noteq> 0
   \<and> map (\<lambda>w. 1 + w) (cum_ret [1 / 10, - 1 / 2, 1 / 10, 2])
       = [11 / 10, 11 / 20, 121 / 200, 363 / 200]
   \<and> calc_durations [1 / 10, - 1 / 2, 1 / 10, 2] 720 = Inr 1
   \<and> calc_drawdowns [1, 0, 1 / 2] = Inr 0 \<and> calc_durations [1, 0, 1 / 2] 720 = Inr 0"
proof -
  have a: "[1 / 10, - 1 / 2, 1 / 10, 2] \<noteq> ([] :: real list)" and b: "[1, 0, 1 / 2] \<noteq> ([] :: real list)"
    by simp_all
  have t: "(720 :: int) \<noteq> 0"
    by simp
  have wealth: "map (\<lambda>w. 1 + w) (cum_ret [1 / 10, - 1 / 2, 1 / 10, 2])
                  = [11 / 10, 11 / 20, 121 / 200, 363 / 200]"
    by (simp add: cum_ret_def)
  have wa: "\<forall>w \<in> set (cum_ret [1 / 10, - 1 / 2, 1 / 10, 2]). 0 \<le> 1 + w"
    and wb: "\<forall>w \<in> set (cum_ret [1, 0, 1 / 2]). 0 \<le> 1 + w"
    by (simp_all add: cum_ret_def)
  have dd: "drawdown_series (cum_ret [1 / 10, - 1 / 2, 1 / 10, 2]) = [0, 1, 9 / 11, 0]"
    by (simp add: drawdown_series_def dd_state_def dd_step_def cum_ret_def np_get_def EPS_def
        eval_nat_numeral upt_conv_Cons Let_def)
  have flat: "calc_drawdowns [1, 0, 1 / 2] = Inr 0"
    by (simp add: calc_drawdowns_def max_loop_def max_state_def max_step_def
        drawdown_series_def dd_state_def dd_step_def cum_ret_def np_get_def EPS_def
        eval_nat_numeral upt_conv_Cons Let_def)
  from calc_durations_run [OF a t wa] dd
  have one: "calc_durations [1 / 10, - 1 / 2, 1 / 10, 2] 720 = Inr 1"
    by (simp add: longest_run_def py_int_def)
  from calc_durations_run [OF b t wb] flat
  have zero: "calc_durations [1, 0, 1 / 2] 720 = Inr 0"
    by blast
  from wealth one zero flat show ?thesis
    by simp
qed

text \<open>
  The claim as worded fails on a series whose wealth turns negative: after the returns
  \<open>0\<close> and \<open>-3\<close> the drawdowns are \<open>0\<close> and \<open>-3/2\<close>, so the maximal drawdown is zero,
  yet the second bar is counted (its drawdown is not equal to zero) and the duration on
  daily bars is 1.
\<close>

theorem calc_durations_counterexample:
  "calc_drawdowns [0, - 3] = Inr 0 \<and> calc_durations [0, - 3] 1440 = Inr 1"
  by (simp add: calc_drawdowns_def calc_durations_def max_loop_def max_state_def max_step_def
      duration_series_def dur_state_def dur_step_def py_int_def
      drawdown_series_def dd_state_def dd_step_def cum_ret_def np_get_def EPS_def
      eval_nat_numeral upt_conv_Cons Let_def)


section \<open>Sharpe ratio and Kelly fraction of a one-element series\<close>

lemma years_between_zero: "years_between start end = 0 \<longleftrightarrow> start = end"
  by (auto simp: years_between_def)

lemma fl_div_NaN: "fl_div x NaN = NaN"
  by (cases x) simp_all

lemma fl_mul_NaN: "fl_mul x NaN = NaN"
  by (cases x) simp_all

lemma std_single: "std_s [r] = NaN"
  by (simp add: std_s_def)

lemma guard_NaN: "\<not> fl_lt (fl_abs NaN) (Num EPS)"
  by simp

text \<open>
  C10, as the code has it. For a return series of exactly one element the sample
  deviation is NaN, the guard \<open>|std| < 1e-5\<close> is false for it, and the division is
  carried out: \<open>calc_kelly\<close> returns NaN, and so does \<open>calc_sharpe\<close> whenever
  \<open>start\<close> and \<open>end\<close> differ.
\<close>

theorem single_return_is_NaN:
  assumes "start \<noteq> end"
  shows "std_s [r] = NaN \<and> \<not> fl_lt (fl_abs (std_s [r])) (Num EPS)
         \<and> calc_sharpe [r] start end = Inr NaN \<and> calc_kelly [r] = NaN"
  using assms
  by (simp add: calc_sharpe_def calc_kelly_def std_single years_between_zero Let_def fl_div_NaN)

theorem single_return_is_NaN_witness:
  "(0 :: int) \<noteq> 720 \<and> calc_sharpe [1 / 100] 0 720 = Inr NaN \<and> calc_kelly [1 / 100] = NaN"
proof -
  have d: "(0 :: int) \<noteq> 720"
    by simp
  from single_return_is_NaN [OF d, of "1 / 100"] show ?thesis
    by simp
qed

text \<open>
  The claim as worded fails where \<open>start = end\<close>, the window of a single timestamp:
  \<open>years\<close> is zero there and \<open>bars / years\<close> raises before any statistic is computed.
\<close>

theorem single_return_counterexample:
  "calc_sharpe [1 / 100] 0 0 = Inl ZeroDivisionError"
  by (simp add: calc_sharpe_def years_between_def)


section \<open>Walk-forward windows\<close>
















section \<open>The aggregate step of the walk-forward test\<close>







section \<open>The cache\<close>









section \<open>Order management in the live loop\<close>









section \<open>The optimising backtest\<close>

lemma argmin_scan_first_min:
  fixes ys :: "real list"
  assumes "ys = pre @ xs" and "k < length pre"
    and "\<forall>j<length pre. ys ! k \<le> ys ! j" and "\<forall>j<k. ys ! k < ys ! j"
  shows "argmin_scan (map Num xs) (length pre) (Num (ys ! k)) k < length ys
       \<and> (\<forall>j<length ys. ys ! argmin_scan (map Num xs) (length pre) (Num (ys ! k)) k \<le> ys ! j)
       \<and> (\<forall>j<argmin_scan (map Num xs) (length pre) (Num (ys ! k)) k.
             ys ! argmin_scan (map Num xs) (length pre) (Num (ys ! k)) k < ys ! j)"
  using assms
proof (induction xs arbitrary: pre k)
  case Nil
  then show ?case
    by simp
next
  case (Cons x xs)
  have ys: "ys = (pre @ [x]) @ xs"
    using Cons.prems(1) by simp
  have at: "ys ! length pre = x"
    using Cons.prems(1) by simp
  show ?case
  proof (cases "ys ! k \<le> x")
    case True
    have kept: "argmin_scan (map Num (x # xs)) (length pre) (Num (ys ! k)) k
                  = argmin_scan (map Num xs) (length (pre @ [x])) (Num (ys ! k)) k"
      using True by auto
    have "k < length (pre @ [x])"
      using Cons.prems(2) by simp
    moreover have "\<forall>j<length (pre @ [x]). ys ! k \<le> ys ! j"
      using Cons.prems(3) True at by (simp add: less_Suc_eq)
    ultimately show ?thesis
      unfolding kept using Cons.IH [OF ys _ _ Cons.prems(4)] by blast
  next
    case False
    then have less: "x < ys ! k"
      by simp
    have moved: "argmin_scan (map Num (x # xs)) (length pre) (Num (ys ! k)) k
                   = argmin_scan (map Num xs) (length (pre @ [x])) (Num (ys ! length pre))
                       (length pre)"
      using False at by auto
    have a: "length pre < length (pre @ [x])"
      by simp
    have b: "\<forall>j<length (pre @ [x]). ys ! length pre \<le> ys ! j"
    proof (intro allI impI)
      fix j
      assume "j < length (pre @ [x])"
      then consider "j < length pre" | "j = length pre"
        by (auto simp: less_Suc_eq)
      then show "ys ! length pre \<le> ys ! j"
      proof cases
        case 1
        with Cons.prems(3) have "ys ! k \<le> ys ! j"
          by simp
        with less at show ?thesis
          by simp
      next
        case 2
        then show ?thesis
          by simp
      qed
    qed
    have c: "\<forall>j<length pre. ys ! length pre < ys ! j"
    proof (intro allI impI)
      fix j
      assume "j < length pre"
      with Cons.prems(3) have "ys ! k \<le> ys ! j"
        by simp
      with less at show "ys ! length pre < ys ! j"
        by simp
    qed
    show ?thesis
      unfolding moved using Cons.IH [OF ys a b c] .
  qed
qed

lemma np_argmin_first_min:
  fixes ys :: "real list"
  assumes "ys \<noteq> []"
  shows "\<exists>k<length ys. np_argmin (map Num ys) = Inr k
           \<and> (\<forall>j<length ys. ys ! k \<le> ys ! j) \<and> (\<forall>j<k. ys ! k < ys ! j)"
proof -
  from assms obtain x xs where ys: "ys = [x] @ xs"
    by (cases ys) auto
  have "\<forall>j<length [x]. ys ! 0 \<le> ys ! j" and "\<forall>j<0. ys ! 0 < ys ! j" and "0 < length [x]"
    by simp_all
  from argmin_scan_first_min [OF ys this(3) this(1) this(2)]
  have "argmin_scan (map Num xs) 1 (Num x) 0 < length ys
       \<and> (\<forall>j<length ys. ys ! argmin_scan (map Num xs) 1 (Num x) 0 \<le> ys ! j)
       \<and> (\<forall>j<argmin_scan (map Num xs) 1 (Num x) 0.
             ys ! argmin_scan (map Num xs) 1 (Num x) 0 < ys ! j)"
    by (simp add: ys)
  moreover have "np_argmin (map Num ys) = Inr (argmin_scan (map Num xs) 1 (Num x) 0)"
    by (simp add: np_argmin_def ys)
  ultimately show ?thesis
    by blast
qed

lemma eval_all_values:
  assumes "\<forall>p\<in>set grid. f p = Inr (Num (g p))"
  shows "eval_all f grid = Inr (map Num (map g grid))"
  using assms by (induction grid) simp_all

lemma brute_first_min:
  assumes "grid \<noteq> []" and "\<forall>p\<in>set grid. f p = Inr (Num (g p))"
  shows "\<exists>k<length grid. brute f grid = Inr (grid ! k)
           \<and> (\<forall>j<length grid. g (grid ! k) \<le> g (grid ! j))
           \<and> (\<forall>j<k. g (grid ! k) < g (grid ! j))"
proof -
  from assms(1) have "map g grid \<noteq> []"
    by simp
  from np_argmin_first_min [OF this]
  obtain k where k: "k < length grid" "np_argmin (map Num (map g grid)) = Inr k"
    and least: "\<forall>j<length grid. map g grid ! k \<le> map g grid ! j"
    and first: "\<forall>j<k. map g grid ! k < map g grid ! j"
    by auto
  from k(2) have "np_argmin (map (Num \<circ> g) grid) = Inr k"
    by simp
  then have "brute f grid = Inr (grid ! k)"
    by (simp add: brute_def eval_all_values [OF assms(2)])
  moreover from least k(1) have "\<forall>j<length grid. g (grid ! k) \<le> g (grid ! j)"
    by simp
  moreover from first k(1) have "\<forall>j<k. g (grid ! k) < g (grid ! j)"
    by simp
  ultimately show ?thesis
    using k(1) by blast
qed

lemma calc_sharpe_years:
  assumes "calc_sharpe ret start end = Inr sh"
  shows "years_between start end \<noteq> 0"
  using assms by (auto simp: calc_sharpe_def Let_def split: if_splits)

lemma objective_closed:
  "objective calc_signal idx op timeframe start end spread min_trade p =
     (case sharpe_of calc_signal idx op start end spread p of
        Inl e \<Rightarrow> Inl e
      | Inr sharpe \<Rightarrow>
          Inr (if meets_floor calc_signal idx start end min_trade p then fl_neg sharpe
               else Num 0))"
proof (cases "sharpe_of calc_signal idx op start end spread p")
  case (Inl e)
  then show ?thesis
    by (simp add: objective_def calc_performance_def sharpe_of_def Let_def)
next
  case (Inr sh)
  then have "years_between start end \<noteq> 0"
    using calc_sharpe_years by (simp add: sharpe_of_def)
  with Inr show ?thesis
    by (auto simp: objective_def calc_performance_def sharpe_of_def meets_floor_def Let_def)
qed

lemma trade_series_closed:
  "trade_series (map (\<lambda>s. Num (of_int s)) signal)
     = map (\<lambda>t. if t = 0 then 0 else turnover (signal ! (t - 1)) (signal ! t))
         [0..<length signal]"
  by (rule nth_equalityI) (simp_all add: trade_bar)

text \<open>
  C5, as the code has it. The value the objective hands to the search is the negated
  Sharpe ratio of the grid point when its trades per year reach \<open>min_trade\<close> and \<open>0\<close>
  otherwise (an exception of \<open>calc_sharpe\<close> propagates). Over a non-empty grid on which
  every objective value is a number, the search returns the first grid point, in
  enumeration order, at which the objective is least. So when the returned point meets
  the floor, its Sharpe ratio is the largest among the points that meet the floor; it
  may also be a point that does not meet the floor, and then no point that meets the
  floor has a positive Sharpe ratio.
\<close>

theorem brute_minimises_objective:
  assumes "grid \<noteq> []"
    and "\<forall>p\<in>set grid. \<exists>x.
           objective calc_signal idx op timeframe start end spread min_trade p = Inr (Num x)"
  shows "(\<forall>p. objective calc_signal idx op timeframe start end spread min_trade p =
            (case sharpe_of calc_signal idx op start end spread p of
               Inl e \<Rightarrow> Inl e
             | Inr sharpe \<Rightarrow>
                 Inr (if meets_floor calc_signal idx start end min_trade p then fl_neg sharpe
                      else Num 0)))
       \<and> (\<exists>k<length grid.
             backtest_optimize calc_signal idx op timeframe start end spread min_trade grid
               = Inr (grid ! k)
             \<and> (\<forall>j<length grid. \<exists>a b.
                   objective calc_signal idx op timeframe start end spread min_trade (grid ! k)
                     = Inr (Num a)
                   \<and> objective calc_signal idx op timeframe start end spread min_trade (grid ! j)
                       = Inr (Num b)
                   \<and> a \<le> b \<and> (j < k \<longrightarrow> a < b))
             \<and> (\<forall>j<length grid. meets_floor calc_signal idx start end min_trade (grid ! j) \<longrightarrow>
                   (\<exists>b. sharpe_of calc_signal idx op start end spread (grid ! j) = Inr (Num b)
                      \<and> (if meets_floor calc_signal idx start end min_trade (grid ! k)
                          then \<exists>a. sharpe_of calc_signal idx op start end spread (grid ! k)
                                      = Inr (Num a) \<and> b \<le> a
                          else b \<le> 0))))"
proof -
  let ?f = "objective calc_signal idx op timeframe start end spread min_trade"
  let ?sh = "sharpe_of calc_signal idx op start end spread"
  let ?ok = "meets_floor calc_signal idx start end min_trade"
  from assms(2) obtain g where g: "\<forall>p\<in>set grid. ?f p = Inr (Num (g p))"
    by metis
  from brute_first_min [OF assms(1) g]
  obtain k where k: "k < length grid" and res: "brute ?f grid = Inr (grid ! k)"
    and least: "\<forall>j<length grid. g (grid ! k) \<le> g (grid ! j)"
    and first: "\<forall>j<k. g (grid ! k) < g (grid ! j)"
    by blast
  have val: "?f (grid ! j) = Inr (Num (g (grid ! j)))" if "j < length grid" for j
    using g that by simp
  have sharpe: "?sh (grid ! j) = Inr (Num (- g (grid ! j)))"
    if "j < length grid" and "?ok (grid ! j)" for j
  proof -
    from val [OF that(1)] that(2) obtain s where s: "?sh (grid ! j) = Inr s"
      and neg: "fl_neg s = Num (g (grid ! j))"
      by (auto simp: objective_closed split: sum.splits)
    from neg have "s = Num (- g (grid ! j))"
      by (cases s) auto
    with s show ?thesis
      by simp
  qed
  have zero: "g (grid ! j) = 0" if "j < length grid" and "\<not> ?ok (grid ! j)" for j
    using val [OF that(1)] that(2) by (auto simp: objective_closed split: sum.splits)
  have order: "\<forall>j<length grid. \<exists>a b. ?f (grid ! k) = Inr (Num a) \<and> ?f (grid ! j) = Inr (Num b)
                 \<and> a \<le> b \<and> (j < k \<longrightarrow> a < b)"
    using val [OF k] val least first by blast
  have best: "\<forall>j<length grid. ?ok (grid ! j) \<longrightarrow>
                (\<exists>b. ?sh (grid ! j) = Inr (Num b)
                   \<and> (if ?ok (grid ! k) then \<exists>a. ?sh (grid ! k) = Inr (Num a) \<and> b \<le> a
                       else b \<le> 0))"
  proof (intro allI impI)
    fix j
    assume j: "j < length grid" and ok: "?ok (grid ! j)"
    from least j have le: "g (grid ! k) \<le> g (grid ! j)"
      by simp
    show "\<exists>b. ?sh (grid ! j) = Inr (Num b)
             \<and> (if ?ok (grid ! k) then \<exists>a. ?sh (grid ! k) = Inr (Num a) \<and> b \<le> a else b \<le> 0)"
    proof (cases "?ok (grid ! k)")
      case True
      with sharpe [OF j ok] sharpe [OF k True] le show ?thesis
        by simp
    next
      case False
      with sharpe [OF j ok] zero [OF k False] le show ?thesis
        by simp
    qed
  qed
  from k res order best show ?thesis
    unfolding backtest_optimize_def using objective_closed [of calc_signal idx op timeframe start "end" spread min_trade]
    by blast
qed

text \<open>
  A year of four bars with the open prices 4, 4, 4, 2. Point 0 enters long at the second
  bar: one trade, Sharpe ratio \<open>-1\<close>. Every other point stays flat: no trade, Sharpe
  ratio 0.
\<close>

lemma sqrt_sixteenth: "sqrt (1 / 16) = 1 / 4"
  using real_sqrt_abs2 [of "1 / 4"] by simp

lemma year_example: "years_between 0 525600 = 1"
  by (simp add: years_between_def)

lemma long_sharpe_example:
  "sharpe_of (\<lambda>p :: nat. if p = 0 then [0, 1, 1, 1] else [0, 0, 0, 0])
     [0, 175200, 350400, 525600] [4, 4, 4, 2] 0 525600 0 0 = Inr (Num (- 1))"
  by (simp add: sharpe_of_def calc_ret_closed ret_values_def loc_slice_def ret_bar_def
      turnover_def calc_sharpe_def year_example mean_s_def std_s_def EPS_def sqrt_sixteenth
      Let_def eval_nat_numeral upt_conv_Cons)

lemma flat_sharpe_example:
  "sharpe_of (\<lambda>p :: nat. if p = 0 then [0, 1, 1, 1] else [0, 0, 0, 0])
     [0, 175200, 350400, 525600] [4, 4, 4, 2] 0 525600 0 (Suc n) = Inr (Num 0)"
  by (simp add: sharpe_of_def calc_ret_closed ret_values_def loc_slice_def ret_bar_def
      turnover_def calc_sharpe_def year_example mean_s_def std_s_def EPS_def
      Let_def eval_nat_numeral upt_conv_Cons)

lemma long_trades_example: "trade_series [Num 0, Num 1, Num 1, Num 1] = [0, 1, 0, 0]"
  using trade_series_closed [of "[0, 1, 1, 1]"]
  by (simp add: turnover_def eval_nat_numeral upt_conv_Cons)

lemma flat_trades_example: "trade_series [Num 0, Num 0, Num 0, Num 0] = [0, 0, 0, 0]"
  using trade_series_closed [of "[0, 0, 0, 0]"]
  by (simp add: turnover_def eval_nat_numeral upt_conv_Cons)

lemma long_floor_example:
  "meets_floor (\<lambda>p :: nat. if p = 0 then [0, 1, 1, 1] else [0, 0, 0, 0])
     [0, 175200, 350400, 525600] 0 525600 1 0"
  by (simp add: meets_floor_def calc_trades_def loc_slice_def year_example
      long_trades_example flat_trades_example)

lemma flat_floor_example:
  "\<not> meets_floor (\<lambda>p :: nat. if p = 0 then [0, 1, 1, 1] else [0, 0, 0, 0])
       [0, 175200, 350400, 525600] 0 525600 1 (Suc n)"
  by (simp add: meets_floor_def calc_trades_def loc_slice_def year_example
      long_trades_example flat_trades_example)

lemma objective_example:
  "objective (\<lambda>p :: nat. if p = 0 then [0, 1, 1, 1] else [0, 0, 0, 0])
     [0, 175200, 350400, 525600] [4, 4, 4, 2] tf 0 525600 0 1 0 = Inr (Num 1)"
  "objective (\<lambda>p :: nat. if p = 0 then [0, 1, 1, 1] else [0, 0, 0, 0])
     [0, 175200, 350400, 525600] [4, 4, 4, 2] tf 0 525600 0 1 (Suc n) = Inr (Num 0)"
  by (simp_all add: objective_closed long_sharpe_example flat_sharpe_example long_floor_example
      flat_floor_example)

theorem brute_minimises_objective_witness:
  "[0, 1, 2] \<noteq> ([] :: nat list)
   \<and> map (objective (\<lambda>p :: nat. if p = 0 then [0, 1, 1, 1] else [0, 0, 0, 0])
            [0, 175200, 350400, 525600] [4, 4, 4, 2] 175200 0 525600 0 1) [0, 1, 2]
       = [Inr (Num 1), Inr (Num 0), Inr (Num 0)]
   \<and> backtest_optimize (\<lambda>p :: nat. if p = 0 then [0, 1, 1, 1] else [0, 0, 0, 0])
        [0, 175200, 350400, 525600] [4, 4, 4, 2] 175200 0 525600 0 1 [0, 1, 2] = Inr 1"
proof -
  let ?cs = "\<lambda>p :: nat. if p = 0 then [0, 1, 1, 1] else [0, 0, 0, 0 :: int]"
  let ?f = "objective ?cs [0, 175200, 350400, 525600] [4, 4, 4, 2] 175200 0 525600 0 1"
  have v: "?f 0 = Inr (Num 1)" "?f (Suc 0) = Inr (Num 0)" "?f (Suc (Suc 0)) = Inr (Num 0)"
    by (rule objective_example)+
  have grid: "[0, 1, 2] \<noteq> ([] :: nat list)"
    by simp
  have nums: "\<forall>p\<in>set [0, 1, 2 :: nat]. \<exists>x. ?f p = Inr (Num x)"
    using v by (simp add: eval_nat_numeral)
  from brute_minimises_objective [OF grid nums]
  obtain k where k: "k < length [0, 1, 2 :: nat]"
    and res: "backtest_optimize ?cs [0, 175200, 350400, 525600] [4, 4, 4, 2] 175200 0 525600 0 1
                [0, 1, 2] = Inr ([0, 1, 2] ! k)"
    and order: "\<forall>j<length [0, 1, 2 :: nat]. \<exists>a b.
                  ?f ([0, 1, 2] ! k) = Inr (Num a) \<and> ?f ([0, 1, 2] ! j) = Inr (Num b)
                  \<and> a \<le> b \<and> (j < k \<longrightarrow> a < b)"
    by blast
  from k consider "k = 0" | "k = 1" | "k = 2"
    by (auto simp: less_Suc_eq eval_nat_numeral)
  then have "k = 1"
  proof cases
    case 1
    with order [rule_format, of 1] v show ?thesis
      by (simp add: eval_nat_numeral)
  next
    case 2
    then show ?thesis .
  next
    case 3
    with order [rule_format, of 1] v show ?thesis
      by (simp add: eval_nat_numeral)
  qed
  with res v show ?thesis
    by (simp add: eval_nat_numeral)
qed

text \<open>
  The claim as worded fails where the points that meet the floor have a negative Sharpe
  ratio: point 0 meets the floor with the Sharpe ratio \<open>-1\<close>, point 1 does not meet it,
  and the search returns point 1.
\<close>

theorem floor_not_met_counterexample:
  "meets_floor (\<lambda>p :: nat. if p = 0 then [0, 1, 1, 1] else [0, 0, 0, 0])
     [0, 175200, 350400, 525600] 0 525600 1 0
   \<and> sharpe_of (\<lambda>p :: nat. if p = 0 then [0, 1, 1, 1] else [0, 0, 0, 0])
       [0, 175200, 350400, 525600] [4, 4, 4, 2] 0 525600 0 0 = Inr (Num (- 1))
   \<and> \<not> meets_floor (\<lambda>p :: nat. if p = 0 then [0, 1, 1, 1] else [0, 0, 0, 0])
         [0, 175200, 350400, 525600] 0 525600 1 1
   \<and> backtest_optimize (\<lambda>p :: nat. if p = 0 then [0, 1, 1, 1] else [0, 0, 0, 0])
        [0, 175200, 350400, 525600] [4, 4, 4, 2] 175200 0 525600 0 1 [0, 1] = Inr 1"
proof -
  have "backtest_optimize (\<lambda>p :: nat. if p = 0 then [0, 1, 1, 1] else [0, 0, 0, 0])
          [0, 175200, 350400, 525600] [4, 4, 4, 2] 175200 0 525600 0 1 [0, Suc 0] = Inr (Suc 0)"
    by (simp add: backtest_optimize_def brute_def objective_example np_argmin_def)
  with long_floor_example long_sharpe_example flat_floor_example [of 0] show ?thesis
    by simp
qed

end
